theory Spec2Isabelle
  imports Main
begin

section \<open>Python values and errors\<close>

text \<open>
  The exceptions the modelled code can raise. \<open>ReadError\<close> stands for the exception a
  resource read raises; it carries the per-row error detail (the \<open>errors\<close> attribute
  that the loader prints before re-raising). \<open>Hidden\<close> is not an exception: it marks
  a call without arguments that did not reach the method, because an attribute of the
  same name took its place, and returned the object wrapped there instead.
\<close>

datatype error =
    KeyError
  | AttributeError
  | TypeError
  | NotImplementedError
  | CallNotDefined
  | ArgumentError
  | OperationalError
  | UnicodeDecodeError
  | Hidden
  | ReadError "string list"

text \<open>JSON values, as they occur in a resource descriptor.\<close>

datatype json =
    JNull
  | JBool bool
  | JNum int
  | JStr string
  | JList "json list"
  | JObj "(string \<times> json) list"

section \<open>The relational library\<close>

text \<open>
  The query facade delegates to a relational query builder over an embedded database.
  This section models the part of that library the facade calls: tables, column
  expressions, the query object with its generative methods, and the execution of a
  query against the stored tables. Values are the Python values a result row carries
  (floating-point numbers and timestamps are left out).
\<close>

datatype py_val = PNone | PBool bool | PInt int | PStr string

text \<open>
  A table object: \<open>tbl_base\<close> is the stored table it reads, \<open>tbl_name\<close> its
  \<open>.name\<close> (the alias for an aliased table), \<open>tbl_columns\<close> its \<open>.columns\<close>.
\<close>

record sa_table =
  tbl_base :: string
  tbl_name :: string
  tbl_columns :: "string list"

definition sa_alias :: "sa_table \<Rightarrow> string \<Rightarrow> sa_table" where
  "sa_alias t n = t\<lparr>tbl_name := n\<rparr>"

datatype sa_expr =
    Column sa_table string
  | Literal py_val
  | Eq sa_expr sa_expr
  | Ne sa_expr sa_expr
  | IsNull sa_expr
  | IsNotNull sa_expr
  | And sa_expr sa_expr
  | Or sa_expr sa_expr

datatype join_kind = InnerJoin | OuterJoin

record sa_query =
  q_entity :: sa_table
  q_joins :: "(join_kind \<times> sa_table \<times> sa_expr) list"
  q_where :: "sa_expr list"
  q_group_by :: "sa_expr list"

text \<open>\<open>session.query(table)\<close> and the generative methods of the query object.\<close>

definition session_query :: "sa_table \<Rightarrow> sa_query" where
  "session_query t = \<lparr>q_entity = t, q_joins = [], q_where = [], q_group_by = []\<rparr>"

definition sa_filter :: "sa_query \<Rightarrow> sa_expr \<Rightarrow> sa_query" where
  "sa_filter qs e = qs\<lparr>q_where := q_where qs @ [e]\<rparr>"

definition sa_join :: "sa_query \<Rightarrow> sa_table \<Rightarrow> sa_expr \<Rightarrow> sa_query" where
  "sa_join qs t on = qs\<lparr>q_joins := q_joins qs @ [(InnerJoin, t, on)]\<rparr>"

definition sa_outerjoin :: "sa_query \<Rightarrow> sa_table \<Rightarrow> sa_expr \<Rightarrow> sa_query" where
  "sa_outerjoin qs t on = qs\<lparr>q_joins := q_joins qs @ [(OuterJoin, t, on)]\<rparr>"

definition sa_group_by :: "sa_query \<Rightarrow> sa_expr list \<Rightarrow> sa_query" where
  "sa_group_by qs es = qs\<lparr>q_group_by := q_group_by qs @ es\<rparr>"

subsection \<open>The stored tables and the evaluation of expressions\<close>

record db_table =
  db_columns :: "string list"
  db_rows :: "py_val list list"

type_synonym store = "string \<rightharpoonup> db_table"
type_synonym row = "(string \<times> py_val) list"
type_synonym env = "(string \<times> row) list"
type_synonym scope = "(string \<times> string list) list"

definition bindE :: "error + 'a \<Rightarrow> ('a \<Rightarrow> error + 'b) \<Rightarrow> error + 'b" where
  "bindE m f = (case m of Inl e \<Rightarrow> Inl e | Inr x \<Rightarrow> f x)"

text \<open>
  Truth of a value in a boolean position: \<open>None\<close> is the unknown of three-valued logic.
  Text counts as false (the engine converts text to a number; numeric-looking text is
  not modelled).
\<close>

fun sql_truth :: "py_val \<Rightarrow> bool option" where
  "sql_truth PNone = None"
| "sql_truth (PBool b) = Some b"
| "sql_truth (PInt i) = Some (i \<noteq> 0)"
| "sql_truth (PStr s) = Some False"

fun sql_bool :: "bool option \<Rightarrow> py_val" where
  "sql_bool None = PNone"
| "sql_bool (Some b) = PInt (if b then 1 else 0)"

text \<open>The engine stores booleans as the integers 0 and 1.\<close>

fun sql_norm :: "py_val \<Rightarrow> py_val" where
  "sql_norm (PBool b) = PInt (if b then 1 else 0)"
| "sql_norm v = v"

definition sql_eq :: "py_val \<Rightarrow> py_val \<Rightarrow> bool option" where
  "sql_eq a b = (if a = PNone \<or> b = PNone then None else Some (sql_norm a = sql_norm b))"

fun tv_and :: "bool option \<Rightarrow> bool option \<Rightarrow> bool option" where
  "tv_and (Some False) _ = Some False"
| "tv_and _ (Some False) = Some False"
| "tv_and (Some True) (Some True) = Some True"
| "tv_and _ _ = None"

fun tv_or :: "bool option \<Rightarrow> bool option \<Rightarrow> bool option" where
  "tv_or (Some True) _ = Some True"
| "tv_or _ (Some True) = Some True"
| "tv_or (Some False) (Some False) = Some False"
| "tv_or _ _ = None"

definition lookup_col :: "env \<Rightarrow> string \<Rightarrow> string \<Rightarrow> py_val" where
  "lookup_col en t c =
     (case map_of en t of
        None \<Rightarrow> PNone
      | Some r \<Rightarrow> (case map_of r c of None \<Rightarrow> PNone | Some v \<Rightarrow> v))"

fun eval :: "env \<Rightarrow> sa_expr \<Rightarrow> py_val" where
  "eval en (Column t c) = lookup_col en (tbl_name t) c"
| "eval en (Literal v) = v"
| "eval en (Eq a b) = sql_bool (sql_eq (eval en a) (eval en b))"
| "eval en (Ne a b) = sql_bool (map_option Not (sql_eq (eval en a) (eval en b)))"
| "eval en (IsNull a) = sql_bool (Some (eval en a = PNone))"
| "eval en (IsNotNull a) = sql_bool (Some (eval en a \<noteq> PNone))"
| "eval en (And a b) = sql_bool (tv_and (sql_truth (eval en a)) (sql_truth (eval en b)))"
| "eval en (Or a b) = sql_bool (tv_or (sql_truth (eval en a)) (sql_truth (eval en b)))"

definition holds :: "env \<Rightarrow> sa_expr \<Rightarrow> bool" where
  "holds en e \<longleftrightarrow> sql_truth (eval en e) = Some True"

text \<open>
  Name resolution, done when the statement is prepared and so before any row is read:
  every column an expression names must be a column of a table in scope.
\<close>

fun resolves :: "scope \<Rightarrow> sa_expr \<Rightarrow> bool" where
  "resolves sc (Column t c) =
     (case map_of sc (tbl_name t) of None \<Rightarrow> False | Some cs \<Rightarrow> c \<in> set cs)"
| "resolves sc (Literal v) = True"
| "resolves sc (Eq a b) = (resolves sc a \<and> resolves sc b)"
| "resolves sc (Ne a b) = (resolves sc a \<and> resolves sc b)"
| "resolves sc (IsNull a) = resolves sc a"
| "resolves sc (IsNotNull a) = resolves sc a"
| "resolves sc (And a b) = (resolves sc a \<and> resolves sc b)"
| "resolves sc (Or a b) = (resolves sc a \<and> resolves sc b)"

fun tables_of :: "sa_expr \<Rightarrow> sa_table list" where
  "tables_of (Column t c) = [t]"
| "tables_of (Literal v) = []"
| "tables_of (Eq a b) = tables_of a @ tables_of b"
| "tables_of (Ne a b) = tables_of a @ tables_of b"
| "tables_of (IsNull a) = tables_of a"
| "tables_of (IsNotNull a) = tables_of a"
| "tables_of (And a b) = tables_of a @ tables_of b"
| "tables_of (Or a b) = tables_of a @ tables_of b"

subsection \<open>Executing a query\<close>

text \<open>
  The rows of a stored table, each paired with the column names; a table that the
  database does not hold makes the statement fail.
\<close>

definition from_table :: "store \<Rightarrow> sa_table \<Rightarrow> error + (string list \<times> row list)" where
  "from_table db t =
     (case db (tbl_base t) of
        None \<Rightarrow> Inl OperationalError
      | Some d \<Rightarrow> Inr (db_columns d, map (zip (db_columns d)) (db_rows d)))"

text \<open>
  One join step for one row of the left side: the matching rows of the joined table; an
  outer join keeps a left row that has no match and pads it with nulls.
\<close>

definition join_rows ::
  "join_kind \<Rightarrow> string \<Rightarrow> string list \<Rightarrow> row list \<Rightarrow> sa_expr \<Rightarrow> env \<Rightarrow> env list" where
  "join_rows k n cs rs on en =
     (let ms = filter (\<lambda>r. holds (en @ [(n, r)]) on) rs
      in if ms = [] \<and> k = OuterJoin then [en @ [(n, map (\<lambda>c. (c, PNone)) cs)]]
         else map (\<lambda>r. en @ [(n, r)]) ms)"

fun run_joins ::
  "store \<Rightarrow> (join_kind \<times> sa_table \<times> sa_expr) list \<Rightarrow> scope \<times> env list
     \<Rightarrow> error + (scope \<times> env list)" where
  "run_joins db [] st = Inr st"
| "run_joins db ((k, t, on) # js) (sc, ens) =
     (if tbl_name t \<in> fst ` set sc then Inl OperationalError
      else bindE (from_table db t) (\<lambda>(cs, rs).
        if resolves (sc @ [(tbl_name t, cs)]) on
        then run_joins db js
               (sc @ [(tbl_name t, cs)], concat (map (join_rows k (tbl_name t) cs rs on) ens))
        else Inl OperationalError))"

text \<open>
  A table that a criterion names without its being joined is added to the FROM list,
  which multiplies the rows.
\<close>

fun add_froms :: "store \<Rightarrow> sa_table list \<Rightarrow> scope \<times> env list \<Rightarrow> error + (scope \<times> env list)" where
  "add_froms db [] st = Inr st"
| "add_froms db (t # ts) (sc, ens) =
     (if tbl_name t \<in> fst ` set sc then add_froms db ts (sc, ens)
      else bindE (from_table db t) (\<lambda>(cs, rs).
        add_froms db ts
          (sc @ [(tbl_name t, cs)], concat (map (\<lambda>en. map (\<lambda>r. en @ [(tbl_name t, r)]) rs) ens))))"

text \<open>
  Grouping keeps one row for each distinct key. Which row of a group supplies the
  columns is left open by the engine; the model keeps the first.
\<close>

definition group_key :: "sa_expr list \<Rightarrow> env \<Rightarrow> py_val list" where
  "group_key es en = map (\<lambda>e. sql_norm (eval en e)) es"

fun group_first :: "sa_expr list \<Rightarrow> py_val list list \<Rightarrow> env list \<Rightarrow> env list" where
  "group_first es seen [] = []"
| "group_first es seen (en # ens) =
     (if group_key es en \<in> set seen then group_first es seen ens
      else en # group_first es (group_key es en # seen) ens)"

definition sa_group :: "sa_expr list \<Rightarrow> env list \<Rightarrow> env list" where
  "sa_group es ens = (if es = [] then ens else group_first es [] ens)"

definition project :: "sa_table \<Rightarrow> env \<Rightarrow> row" where
  "project t en = map (\<lambda>c. (c, lookup_col en (tbl_name t) c)) (tbl_columns t)"

text \<open>
  The FROM clause of a statement. First the entity table, whose selected columns must
  exist, and the joins.
\<close>

definition sa_joined :: "store \<Rightarrow> sa_query \<Rightarrow> error + (scope \<times> env list)" where
  "sa_joined db qs =
     bindE (from_table db (q_entity qs)) (\<lambda>(cs, rs).
       if list_all (\<lambda>c. c \<in> set cs) (tbl_columns (q_entity qs))
       then run_joins db (q_joins qs)
              ([(tbl_name (q_entity qs), cs)], map (\<lambda>r. [(tbl_name (q_entity qs), r)]) rs)
       else Inl OperationalError)"

text \<open>
  Then the tables that only the criteria name; every criterion must resolve in the
  resulting scope.
\<close>

definition sa_from :: "store \<Rightarrow> sa_query \<Rightarrow> error + (scope \<times> env list)" where
  "sa_from db qs =
     bindE (sa_joined db qs) (\<lambda>st.
     bindE (add_froms db (concat (map tables_of (q_where qs @ q_group_by qs))) st)
       (\<lambda>(sc, ens).
         if list_all (resolves sc) (q_where qs @ q_group_by qs) then Inr (sc, ens)
         else Inl OperationalError))"

text \<open>
  Iterating a query: of the joined rows, those that satisfy every criterion, grouped,
  and reduced to the columns of the entity table.
\<close>

definition sa_all :: "store \<Rightarrow> sa_query \<Rightarrow> error + row list" where
  "sa_all db qs =
     bindE (sa_from db qs) (\<lambda>(sc, ens).
       Inr (map (project (q_entity qs))
              (sa_group (q_group_by qs)
                 (filter (\<lambda>en. list_all (holds en) (q_where qs)) ens))))"

text \<open>\<open>Query.count()\<close> counts the rows the query returns.\<close>

definition sa_count :: "store \<Rightarrow> sa_query \<Rightarrow> error + int" where
  "sa_count db qs = bindE (sa_all db qs) (\<lambda>rs. Inr (int (length rs)))"

section \<open>The query facade\<close>

subsection \<open>Predicate handles\<close>

text \<open>
  What a caller can pass where a predicate or an operand is expected: a
  \<open>DerivaCompatPrimitive\<close> (a column handle is one) wrapping an expression, an instance
  of the base class \<open>DerivaCompat\<close>, whose call raises, or any other Python value,
  which cannot be called at all.
\<close>

datatype pyarg = Primitive sa_expr | BaseCompat | Raw py_val

text \<open>Calling a handle with no argument, as the query closures do at execution time.\<close>

fun call0 :: "pyarg \<Rightarrow> error + sa_expr" where
  "call0 (Primitive e) = Inr e"
| "call0 BaseCompat = Inl CallNotDefined"
| "call0 (Raw v) = Inl TypeError"

fun call_all :: "pyarg list \<Rightarrow> error + sa_expr list" where
  "call_all [] = Inr []"
| "call_all (c # cs) = bindE (call0 c) (\<lambda>e. bindE (call_all cs) (\<lambda>es. Inr (e # es)))"


fun prim_ne :: "sa_expr \<Rightarrow> pyarg \<Rightarrow> error + pyarg" where
  "prim_ne v (Primitive e) = Inr (Primitive (Ne v e))"
| "prim_ne v BaseCompat = Inl CallNotDefined"
| "prim_ne v (Raw PNone) = Inr (Primitive (IsNotNull v))"
| "prim_ne v (Raw x) = Inr (Primitive (Ne v (Literal x)))"



subsection \<open>Table handles\<close>

record pkg =
  progress_bar :: bool

type_synonym closure = "sa_query \<Rightarrow> error + sa_query"

text \<open>
  A table handle after its constructor has run. The constructor ends by setting one
  attribute per column, which replaces a member of the same name by a column handle.
  \<open>th_pkg\<close> is \<open>None\<close> when \<open>_pkg\<close> has been replaced (a column handle has none
  of the package's attributes); \<open>th_qs\<close> is a closure that raises \<open>TypeError\<close> when
  \<open>_qs\<close> has been replaced (a column handle takes no argument); \<open>th_table\<close> keeps
  the table, and \<open>th_call\<close> below tells whether \<open>_table\<close> still is that table.
\<close>

record table_handle =
  th_pkg :: "pkg option"
  th_table :: sa_table
  th_qs :: closure

definition has_col :: "table_handle \<Rightarrow> string \<Rightarrow> bool" where
  "has_col t n \<longleftrightarrow> n \<in> set (tbl_columns (th_table t))"

definition th_new :: "pkg option \<Rightarrow> sa_table \<Rightarrow> closure \<Rightarrow> table_handle" where
  "th_new p t qs =
     \<lparr>th_pkg = (if ''_pkg'' \<in> set (tbl_columns t) then None else p),
      th_table = t,
      th_qs = (if ''_qs'' \<in> set (tbl_columns t) then (\<lambda>_. Inl TypeError) else qs)\<rparr>"

text \<open>\<open>table()\<close>: the table, or \<open>None\<close> when a column handle sits in \<open>_table\<close>.\<close>

definition th_call :: "table_handle \<Rightarrow> sa_table option" where
  "th_call t = (if has_col t ''_table'' then None else Some (th_table t))"

text \<open>
  Attribute access by a name that is none of the handle's own members: the column
  handle of that name, if the table has such a column.
\<close>

definition th_column :: "table_handle \<Rightarrow> string \<Rightarrow> error + pyarg" where
  "th_column t c =
     (if has_col t c then Inr (Primitive (Column (th_table t) c)) else Inl AttributeError)"

definition with_qs :: "table_handle \<Rightarrow> closure \<Rightarrow> error + table_handle" where
  "with_qs t qs =
     (if has_col t ''with_qs'' then Inl TypeError
      else if has_col t ''_table'' then Inl AttributeError
      else Inr (th_new (th_pkg t) (th_table t) (\<lambda>x. bindE (th_qs t x) qs)))"

definition th_alias :: "table_handle \<Rightarrow> string \<Rightarrow> error + table_handle" where
  "th_alias t n =
     (if has_col t ''alias'' then Inl TypeError
      else if has_col t ''_table'' then Inl AttributeError
      else Inr (th_new (th_pkg t) (sa_alias (th_table t) n) (th_qs t)))"

subsection \<open>Query handles\<close>

text \<open>
  Path mappings are dictionaries, which are objects: the store \<open>cells\<close> holds their
  contents, \<open>used\<close> is the next free address. Address 0 is the dictionary that the
  constructor's default argument \<open>path={}\<close> denotes, created once and shared by every
  call that omits the argument.
\<close>

type_synonym path_dict = "string \<rightharpoonup> table_handle"

record dict_heap =
  cells :: "nat \<Rightarrow> path_dict"
  used :: nat

definition default_path :: nat where
  "default_path = 0"

text \<open>
  A query handle after its constructor has run. The constructor ends by setting one
  attribute per entry of the path mapping (\<open>qh_attrs\<close>), which replaces a member of the
  same name: \<open>qh_pkg\<close> and \<open>qh_path\<close> are \<open>None\<close> when a table handle has taken the
  place of \<open>_pkg\<close> or \<open>_path\<close>, \<open>qh_query\<close> fails with \<open>TypeError\<close> when one has
  taken the place of \<open>_query\<close>, \<open>qh_subj\<close> is the table handle found in \<open>_subj\<close>.
\<close>

record query_handle =
  qh_pkg :: "pkg option"
  qh_subj :: table_handle
  qh_query :: closure
  qh_path :: "nat option"
  qh_attrs :: path_dict

definition q_init ::
  "dict_heap \<Rightarrow> pkg option \<Rightarrow> table_handle \<Rightarrow> closure \<Rightarrow> nat option
     \<Rightarrow> error + (dict_heap \<times> query_handle)" where
  "q_init h p subj query path =
     (case th_call subj of
        None \<Rightarrow> Inl AttributeError
      | Some tb \<Rightarrow>
          bindE (with_qs subj query) (\<lambda>t'.
            case path of
              None \<Rightarrow> Inl TypeError
            | Some a \<Rightarrow>
                let d = (cells h a)(tbl_name tb \<mapsto> t')
                in Inr (h\<lparr>cells := (cells h)(used h := d), used := Suc (used h)\<rparr>,
                        \<lparr>qh_pkg = (if d ''_pkg'' = None then p else None),
                         qh_subj = (case d ''_subj'' of None \<Rightarrow> subj | Some t \<Rightarrow> t),
                         qh_query = (if d ''_query'' = None then query else (\<lambda>_. Inl TypeError)),
                         qh_path = (if d ''_path'' = None then Some (used h) else None),
                         qh_attrs = d\<rparr>)))"

text \<open>
  A method is reached through the instance; an attribute of the same name set by the
  constructor hides it, and calling the table handle found there with arguments raises
  \<open>TypeError\<close>.
\<close>

definition hidden :: "query_handle \<Rightarrow> string \<Rightarrow> bool" where
  "hidden q n \<longleftrightarrow> qh_attrs q n \<noteq> None"

definition q_call :: "query_handle \<Rightarrow> error + sa_query" where
  "q_call q =
     (case qh_pkg q of
        None \<Rightarrow> Inl AttributeError
      | Some p \<Rightarrow>
          (case th_call (qh_subj q) of
             None \<Rightarrow> Inl ArgumentError
           | Some tb \<Rightarrow> qh_query q (session_query tb)))"

definition pivot ::
  "dict_heap \<Rightarrow> query_handle \<Rightarrow> table_handle \<Rightarrow> error + (dict_heap \<times> query_handle)" where
  "pivot h q other =
     (if hidden q ''pivot'' then Inl TypeError
      else q_init h (qh_pkg q) other (qh_query q) (qh_path q))"

definition link ::
  "dict_heap \<Rightarrow> query_handle \<Rightarrow> table_handle \<Rightarrow> pyarg \<Rightarrow> string
     \<Rightarrow> error + (dict_heap \<times> query_handle)" where
  "link h q other on join_type =
     (if hidden q ''link'' then Inl TypeError
      else if join_type = ''left'' then
        q_init h (qh_pkg q) other
          (\<lambda>qs. bindE (qh_query q qs) (\<lambda>r. bindE (call0 on) (\<lambda>c.
             case th_call (qh_subj q) of
               None \<Rightarrow> Inl ArgumentError
             | Some tb \<Rightarrow> Inr (sa_join r tb c))))
          (qh_path q)
      else if join_type = ''right'' then Inl NotImplementedError
      else if join_type = ''full'' then
        q_init h (qh_pkg q) other
          (\<lambda>qs. bindE (qh_query q qs) (\<lambda>r. bindE (call0 on) (\<lambda>c.
             case th_call (qh_subj q) of
               None \<Rightarrow> Inl ArgumentError
             | Some tb \<Rightarrow> Inr (sa_outerjoin r tb c))))
          (qh_path q)
      else Inl NotImplementedError)"

definition filter_q ::
  "dict_heap \<Rightarrow> query_handle \<Rightarrow> pyarg \<Rightarrow> error + (dict_heap \<times> query_handle)" where
  "filter_q h q clause =
     (if hidden q ''filter'' then Inl TypeError
      else q_init h (qh_pkg q) (qh_subj q)
             (\<lambda>qs. bindE (qh_query q qs) (\<lambda>r. bindE (call0 clause) (\<lambda>c. Inr (sa_filter r c))))
             (qh_path q))"

definition groupby ::
  "dict_heap \<Rightarrow> query_handle \<Rightarrow> pyarg list \<Rightarrow> error + (dict_heap \<times> query_handle)" where
  "groupby h q clauses =
     (if hidden q ''groupby'' then Inl TypeError
      else q_init h (qh_pkg q) (qh_subj q)
             (\<lambda>qs. bindE (qh_query q qs) (\<lambda>r. bindE (call_all clauses) (\<lambda>cs.
                Inr (sa_group_by r cs))))
             (qh_path q))"

subsection \<open>Enumeration and count\<close>





text \<open>
  \<open>entities\<close> is a generator function: calling it runs nothing and returns a
  generator that has not started. The first \<open>next\<close> runs the body up to its first
  \<open>yield\<close>, which is where the query is built and sent to the database.
\<close>

datatype gen = Unstarted query_handle | Running "row list" | Finished


definition entities :: "query_handle \<Rightarrow> error + gen" where
  "entities q = (if hidden q ''entities'' then Inl Hidden else Inr (Unstarted q))"





definition count :: "store \<Rightarrow> query_handle \<Rightarrow> error + int" where
  "count db q =
     (if hidden q ''count'' then Inl Hidden else bindE (q_call q) (sa_count db))"

subsection \<open>The methods of a table handle\<close>

definition as_query :: "dict_heap \<Rightarrow> table_handle \<Rightarrow> error + (dict_heap \<times> query_handle)" where
  "as_query h t = q_init h (th_pkg t) t (\<lambda>qs. th_qs t qs) (Some default_path)"

definition link_t ::
  "dict_heap \<Rightarrow> table_handle \<Rightarrow> table_handle \<Rightarrow> pyarg \<Rightarrow> string
     \<Rightarrow> error + (dict_heap \<times> query_handle)" where
  "link_t h t other on join_type =
     (if has_col t ''link'' then Inl TypeError
      else if has_col t ''_as_query'' then Inl AttributeError
      else bindE (as_query h t) (\<lambda>(h', q). link h' q other on join_type))"

definition filter_t ::
  "dict_heap \<Rightarrow> table_handle \<Rightarrow> pyarg \<Rightarrow> error + (dict_heap \<times> query_handle)" where
  "filter_t h t selector =
     (if has_col t ''filter'' then Inl TypeError
      else if has_col t ''_as_query'' then Inl AttributeError
      else bindE (as_query h t) (\<lambda>(h', q). filter_q h' q selector))"

text \<open>The progress display hands every item on unchanged.\<close>

definition tqdm :: "gen \<Rightarrow> gen" where
  "tqdm g = g"

definition entities_t :: "dict_heap \<Rightarrow> table_handle \<Rightarrow> error + (dict_heap \<times> gen)" where
  "entities_t h t =
     (if has_col t ''entities'' then Inl Hidden
      else case th_pkg t of
        None \<Rightarrow> Inl AttributeError
      | Some p \<Rightarrow>
          if has_col t ''_as_query'' then Inl AttributeError
          else bindE (as_query h t) (\<lambda>(h', q). bindE (entities q) (\<lambda>g.
                 Inr (h', if progress_bar p then tqdm g else g))))"

definition count_t :: "store \<Rightarrow> dict_heap \<Rightarrow> table_handle \<Rightarrow> error + (dict_heap \<times> int)" where
  "count_t db h t =
     (if has_col t ''count'' then Inl Hidden
      else if has_col t ''_as_query'' then Inl AttributeError
      else bindE (as_query h t) (\<lambda>(h', q). bindE (count db q) (\<lambda>n. Inr (h', n))))"

subsection \<open>The helper for a disjunction of equalities\<close>

datatype queryable = OfTable table_handle | OfQuery query_handle





subsection \<open>Chains of calls\<close>

datatype op =
    OpFilter pyarg
  | OpLink table_handle pyarg string
  | OpGroupby "pyarg list"
  | OpPivot table_handle

fun apply_op :: "dict_heap \<Rightarrow> query_handle \<Rightarrow> op \<Rightarrow> error + (dict_heap \<times> query_handle)" where
  "apply_op h q (OpFilter c) = filter_q h q c"
| "apply_op h q (OpLink t on jt) = link h q t on jt"
| "apply_op h q (OpGroupby cs) = groupby h q cs"
| "apply_op h q (OpPivot t) = pivot h q t"

fun chain :: "dict_heap \<Rightarrow> query_handle \<Rightarrow> op list \<Rightarrow> error + (dict_heap \<times> query_handle)" where
  "chain h q [] = Inr (h, q)"
| "chain h q (x # xs) = bindE (apply_op h q x) (\<lambda>(h', q'). chain h' q' xs)"

text \<open>
  A chain that starts at a table handle: a table handle has the methods \<open>filter\<close> and
  \<open>link\<close> only.
\<close>

fun chain_t :: "dict_heap \<Rightarrow> table_handle \<Rightarrow> op list \<Rightarrow> error + (dict_heap \<times> query_handle)" where
  "chain_t h t [] = as_query h t"
| "chain_t h t (OpFilter c # xs) = bindE (filter_t h t c) (\<lambda>(h', q'). chain h' q' xs)"
| "chain_t h t (OpLink t' on jt # xs) = bindE (link_t h t t' on jt) (\<lambda>(h', q'). chain h' q' xs)"
| "chain_t h t (OpGroupby cs # xs) =
     (if has_col t ''groupby'' then Inl TypeError else Inl AttributeError)"
| "chain_t h t (OpPivot t' # xs) =
     (if has_col t ''pivot'' then Inl TypeError else Inl AttributeError)"

text \<open>A chain that starts at either kind of handle.\<close>

definition chain_any :: "dict_heap \<Rightarrow> queryable \<Rightarrow> op list \<Rightarrow> error + (dict_heap \<times> query_handle)" where
  "chain_any h s xs = (case s of OfTable t \<Rightarrow> chain_t h t xs | OfQuery q \<Rightarrow> chain h q xs)"

section \<open>Resources and the dialect patch\<close>

text \<open>
  A resource of the tabular-data library, as far as the loader uses it: its name, the
  descriptor the caller may edit (\<open>rc.descriptor\<close>), the descriptor the resource
  currently reads its file with, which \<open>rc.commit()\<close> replaces by the edited one, and
  what \<open>rc.read(keyed=True)\<close> does for a given committed descriptor: it returns the
  rows, each a dictionary from field name to value, or raises.
  Resources are objects: they live in a store and are handled by reference.
\<close>

record resource =
  rc_name :: string
  descriptor :: "string \<rightharpoonup> json"
  committed :: "string \<rightharpoonup> json"
  rc_read :: "(string \<rightharpoonup> json) \<Rightarrow> error + row list"

type_synonym rc_ref = nat
type_synonym rc_store = "rc_ref \<Rightarrow> resource"

definition commit :: "resource \<Rightarrow> resource" where
  "commit rc = rc\<lparr>committed := descriptor rc\<rparr>"

definition endswith :: "string \<Rightarrow> string \<Rightarrow> bool" where
  "endswith s suf \<longleftrightarrow>
     length suf \<le> length s \<and> drop (length s - length suf) s = suf"

definition tsv_dialect :: json where
  "tsv_dialect = JObj
     [(''delimiter'', JStr [CHR 0x09]),
      (''doubleQuote'', JBool False),
      (''lineTerminator'', JStr [CHR 0x0A]),
      (''skipInitialSpace'', JBool True),
      (''header'', JBool True)]"

text \<open>
  \<open>rc.descriptor['path'].endswith('.tsv')\<close>: a missing key raises \<open>KeyError\<close>; a path
  that is not a string (a multipart path is a list) has no \<open>endswith\<close>.
\<close>

definition path_is_tsv :: "resource \<Rightarrow> error + bool" where
  "path_is_tsv rc =
     (case descriptor rc ''path'' of
        None \<Rightarrow> Inl KeyError
      | Some (JStr p) \<Rightarrow> Inr (endswith p ''.tsv'')
      | Some _ \<Rightarrow> Inl AttributeError)"

definition format_patch :: "rc_store \<Rightarrow> rc_ref \<Rightarrow> error + (rc_store \<times> rc_ref)" where
  "format_patch h r =
     (case path_is_tsv (h r) of
        Inl e \<Rightarrow> Inl e
      | Inr tsv \<Rightarrow>
          if tsv \<and> ''dialect'' \<notin> dom (descriptor (h r)) then
            Inr (h(r := commit ((h r)\<lparr>descriptor := (descriptor (h r))(''dialect'' \<mapsto> tsv_dialect)\<rparr>)), r)
          else if ''format'' \<notin> dom (descriptor (h r)) then
            Inr (h(r := commit ((h r)\<lparr>descriptor := (descriptor (h r))(''format'' \<mapsto> JNull)\<rparr>)), r)
          else Inr (h, r))"

section \<open>The loader\<close>

subsection \<open>Reading the resources\<close>

definition read :: "resource \<Rightarrow> error + row list" where
  "read rc = rc_read rc (committed rc)"

fun mapE :: "('a \<Rightarrow> error + 'b) \<Rightarrow> 'a list \<Rightarrow> error + 'b list" where
  "mapE f [] = Inr []"
| "mapE f (x # xs) = bindE (f x) (\<lambda>y. bindE (mapE f xs) (\<lambda>ys. Inr (y # ys)))"

text \<open>Subscripting a JSON object, and the places where the loader needs a string.\<close>

definition jget :: "json \<Rightarrow> string \<Rightarrow> error + json" where
  "jget j k =
     (case j of
        JObj kvs \<Rightarrow> (case map_of kvs k of None \<Rightarrow> Inl KeyError | Some v \<Rightarrow> Inr v)
      | _ \<Rightarrow> Inl TypeError)"

definition jstr :: "json \<Rightarrow> error + string" where
  "jstr j = (case j of JStr s \<Rightarrow> Inr s | _ \<Rightarrow> Inl TypeError)"

definition jitems :: "json \<Rightarrow> error + json list" where
  "jitems j = (case j of JList xs \<Rightarrow> Inr xs | _ \<Rightarrow> Inl TypeError)"

text \<open>\<open>[field['name'] for field in schema['fields']]\<close>\<close>

definition field_names :: "json \<Rightarrow> error + string list" where
  "field_names schema =
     bindE (jget schema ''fields'') (\<lambda>fs. bindE (jitems fs)
       (mapE (\<lambda>f. bindE (jget f ''name'') jstr)))"

text \<open>\<open>[x] if type(x) != list else x\<close>, for a primary key or the fields of a foreign key.\<close>

definition key_list :: "json \<Rightarrow> error + string list" where
  "key_list j = (case j of JList xs \<Rightarrow> mapE jstr xs | _ \<Rightarrow> bindE (jstr j) (\<lambda>s. Inr [s]))"

text \<open>
  The first loop of the constructor: every resource of every bundle is patched and put
  into the group of its name; a group takes its schema from its first resource. The
  groups keep the order in which their names first occur.
\<close>

type_synonym rc_group = "string \<times> json \<times> rc_ref list"

fun add_to_group :: "string \<Rightarrow> rc_ref \<Rightarrow> rc_group list \<Rightarrow> rc_group list" where
  "add_to_group n r [] = []"
| "add_to_group n r ((m, sch, rs) # gs) =
     (if m = n then (m, sch, rs @ [r]) # gs else (m, sch, rs) # add_to_group n r gs)"

fun group_rcs :: "rc_store \<Rightarrow> rc_ref list \<Rightarrow> rc_group list \<Rightarrow> error + (rc_store \<times> rc_group list)" where
  "group_rcs h [] gs = Inr (h, gs)"
| "group_rcs h (r # rs) gs =
     bindE (format_patch h r) (\<lambda>(h', r').
       if rc_name (h' r') \<in> fst ` set gs
       then group_rcs h' rs (add_to_group (rc_name (h' r')) r' gs)
       else (case descriptor (h' r') ''schema'' of
               None \<Rightarrow> Inl KeyError
             | Some sch \<Rightarrow> group_rcs h' rs (gs @ [(rc_name (h' r'), sch, [r'])])))"

text \<open>
  \<open>[record for resource in rcs for record in resource.read(keyed=True)]\<close>: the
  resources of a group are read one after the other; the first exception ends it.
\<close>

fun read_all :: "rc_store \<Rightarrow> rc_ref list \<Rightarrow> error + row list" where
  "read_all h [] = Inr []"
| "read_all h (r # rs) =
     bindE (read (h r)) (\<lambda>xs. bindE (read_all h rs) (\<lambda>ys. Inr (xs @ ys)))"

text \<open>
  The handler around the read prints \<open>e.errors\<close> and then raises \<open>e\<close> again. Of the
  exceptions modelled here only \<open>ReadError\<close> has the attribute \<open>errors\<close>; for any
  other, evaluating \<open>e.errors\<close> raises \<open>AttributeError\<close> from inside the handler.
\<close>

definition has_errors :: "error \<Rightarrow> bool" where
  "has_errors e = (case e of ReadError d \<Rightarrow> True | _ \<Rightarrow> False)"

definition handler :: "error \<Rightarrow> error" where
  "handler e = (if has_errors e then e else AttributeError)"

subsection \<open>The data frame\<close>

text \<open>
  \<open>pd.DataFrame(raw_data)[[names]]\<close>: a frame has the keys of the rows as columns;
  selecting a name that is no column raises \<open>KeyError\<close>; a row that lacks a key has a
  missing value there.
\<close>

definition make_frame :: "string list \<Rightarrow> row list \<Rightarrow> error + py_val list list" where
  "make_frame names raw =
     (if list_all (\<lambda>n. list_ex (\<lambda>r. n \<in> fst ` set r) raw) names
      then Inr (map (\<lambda>r. map (\<lambda>n. case map_of r n of None \<Rightarrow> PNone | Some v \<Rightarrow> v) names) raw)
      else Inl KeyError)"

text \<open>
  The conversion of one field. The three conversions belong to the data-frame library
  and are a parameter \<open>co\<close>, from the type name and a value to the converted value or
  an exception.
\<close>

definition convert_cell ::
  "(string \<Rightarrow> py_val \<Rightarrow> error + py_val) \<Rightarrow> string \<Rightarrow> py_val \<Rightarrow> error + py_val" where
  "convert_cell co ty v =
     (if ty = ''datetime'' then co ty v
      else if ty = ''array'' \<or> ty = ''object'' then co ty v
      else if ty = ''number'' then co ty v
      else Inr v)"

definition convert_row ::
  "(string \<Rightarrow> py_val \<Rightarrow> error + py_val) \<Rightarrow> string list \<Rightarrow> string \<times> string
     \<Rightarrow> py_val list \<Rightarrow> error + py_val list" where
  "convert_row co names f r =
     mapE (\<lambda>(n, v). if n = fst f then convert_cell co (snd f) v else Inr v) (zip names r)"

fun convert_fields ::
  "(string \<Rightarrow> py_val \<Rightarrow> error + py_val) \<Rightarrow> string list \<Rightarrow> json list
     \<Rightarrow> py_val list list \<Rightarrow> error + py_val list list" where
  "convert_fields co names [] rows = Inr rows"
| "convert_fields co names (f # fs) rows =
     bindE (bindE (jget f ''type'') jstr) (\<lambda>ty.
       if ty = ''datetime'' \<or> ty = ''array'' \<or> ty = ''object'' \<or> ty = ''number''
       then bindE (bindE (jget f ''name'') jstr) (\<lambda>n.
              if n \<in> set names
              then bindE (mapE (convert_row co names (n, ty)) rows) (convert_fields co names fs)
              else Inl KeyError)
       else convert_fields co names fs rows)"

text \<open>
  What is handed to \<open>to_sql\<close>: the labels of the index, the other columns, and the
  rows with the index values first.

  With rows, \<open>set_index(primaryKey)\<close> has moved the key columns into the index and
  \<open>index_label\<close> names them.

  Without rows the frame keeps the index it was created with, which has one level and
  no name, and \<open>index_label\<close> is \<open>None\<close>; as \<open>index=True\<close> is passed all the same,
  the library writes that index as a column of its own and calls it \<open>index\<close>, or
  \<open>level_0\<close> if the frame has a column \<open>index\<close> already.
\<close>

definition set_index ::
  "string list \<Rightarrow> string list \<Rightarrow> py_val list list
     \<Rightarrow> error + (string list \<times> string list \<times> py_val list list)" where
  "set_index keys names rows =
     (if list_all (\<lambda>k. k \<in> set names) keys
      then Inr (keys, filter (\<lambda>n. n \<notin> set keys) names,
                map (\<lambda>r. map (\<lambda>k. case map_of (zip names r) k of None \<Rightarrow> PNone | Some v \<Rightarrow> v) keys
                          @ map snd (filter (\<lambda>(n, v). n \<notin> set keys) (zip names r))) rows)
      else Inl KeyError)"

definition default_index_label :: "string list \<Rightarrow> string" where
  "default_index_label names = (if ''index'' \<notin> set names then ''index'' else ''level_0'')"

definition prepare ::
  "(string \<Rightarrow> py_val \<Rightarrow> error + py_val) \<Rightarrow> json \<Rightarrow> row list
     \<Rightarrow> error + (string list \<times> string list \<times> py_val list list)" where
  "prepare co schema raw =
     bindE (field_names schema) (\<lambda>names.
     bindE (if raw \<noteq> [] then make_frame names raw else Inr []) (\<lambda>rows.
     bindE (bindE (jget schema ''fields'') jitems) (\<lambda>fs.
     bindE (convert_fields co names fs rows) (\<lambda>rows'.
       if raw \<noteq> [] then
         bindE (bindE (jget schema ''primaryKey'') key_list) (\<lambda>keys. set_index keys names rows')
       else Inr ([default_index_label names], names, rows')))))"

subsection \<open>Writing the table and its indexes\<close>

text \<open>
  The database under the cache directory: the stored tables and the indexes, each with
  its name, its table and its columns.
\<close>

record database =
  db_tables :: store
  db_indexes :: "(string \<times> string \<times> string list) list"

fun join_with :: "string \<Rightarrow> string list \<Rightarrow> string" where
  "join_with sep [] = []"
| "join_with sep [x] = x"
| "join_with sep (x # y # ys) = x @ sep @ join_with sep (y # ys)"

text \<open>
  \<open>to_sql(.., if_exists='replace', index=True, ..)\<close>: a table of that name is dropped
  with its indexes; the new table has the index labels and then the columns; the
  library indexes every index label.
\<close>

definition to_sql ::
  "database \<Rightarrow> string \<Rightarrow> string list \<Rightarrow> string list \<Rightarrow> py_val list list \<Rightarrow> database" where
  "to_sql db name ixs cols rows =
     \<lparr>db_tables = (db_tables db)(name \<mapsto> \<lparr>db_columns = ixs @ cols, db_rows = rows\<rparr>),
      db_indexes = filter (\<lambda>(i, t, cs). t \<noteq> name) (db_indexes db)
                   @ map (\<lambda>c. (join_with ''_'' [''ix'', name, c], name, [c])) ixs\<rparr>"

text \<open>
  \<open>create index if not exists .. on .. (..)\<close>, sent as text: the names are not quoted,
  so each must be acceptable to the engine as it stands (the parameter \<open>ident\<close>).
\<close>

definition create_index ::
  "(string \<Rightarrow> bool) \<Rightarrow> database \<Rightarrow> string \<Rightarrow> string list \<Rightarrow> error + database" where
  "create_index ident db name cols =
     (if cols \<noteq> [] \<and> list_all ident (join_with ''_'' (''idx'' # name # cols) # name # cols)
      then (case db_tables db name of
              None \<Rightarrow> Inl OperationalError
            | Some t \<Rightarrow>
                if join_with ''_'' (''idx'' # name # cols) \<in> fst ` set (db_indexes db) then Inr db
                else if list_all (\<lambda>c. c \<in> set (db_columns t)) cols
                then Inr (db\<lparr>db_indexes := db_indexes db
                            @ [(join_with ''_'' (''idx'' # name # cols), name, cols)]\<rparr>)
                else Inl OperationalError)
      else Inl OperationalError)"

fun create_fk_indexes ::
  "(string \<Rightarrow> bool) \<Rightarrow> database \<Rightarrow> string \<Rightarrow> json list \<Rightarrow> database \<times> error option" where
  "create_fk_indexes ident db name [] = (db, None)"
| "create_fk_indexes ident db name (fk # fks) =
     (case bindE (bindE (jget fk ''fields'') key_list) (create_index ident db name) of
        Inl e \<Rightarrow> (db, Some e)
      | Inr db' \<Rightarrow> create_fk_indexes ident db' name fks)"

definition create_indexes ::
  "(string \<Rightarrow> bool) \<Rightarrow> database \<Rightarrow> string \<Rightarrow> json \<Rightarrow> database \<times> error option" where
  "create_indexes ident db name schema =
     (case bindE (bindE (jget schema ''primaryKey'') key_list) (create_index ident db name) of
        Inl e \<Rightarrow> (db, Some e)
      | Inr db' \<Rightarrow>
          (case (case jget schema ''foreignKeys'' of Inl e \<Rightarrow> Inr [] | Inr fks \<Rightarrow> jitems fks) of
             Inl e \<Rightarrow> (db', Some e)
           | Inr fks \<Rightarrow> create_fk_indexes ident db' name fks))"

subsection \<open>The constructor of the adapter\<close>

text \<open>One pass of the second loop: the database afterwards and the exception, if any.\<close>

definition load_group ::
  "(string \<Rightarrow> py_val \<Rightarrow> error + py_val) \<Rightarrow> (string \<Rightarrow> bool) \<Rightarrow> rc_store \<Rightarrow> database
     \<Rightarrow> rc_group \<Rightarrow> database \<times> error option" where
  "load_group co ident h db g =
     (case g of (name, schema, rs) \<Rightarrow>
        (case read_all h rs of
           Inl e \<Rightarrow> (db, Some (handler e))
         | Inr raw \<Rightarrow>
             (case prepare co schema raw of
                Inl e \<Rightarrow> (db, Some e)
              | Inr (ixs, cols, rows) \<Rightarrow>
                  if raw \<noteq> [] then create_indexes ident (to_sql db name ixs cols rows) name schema
                  else (to_sql db name ixs cols rows, None))))"

fun load_groups ::
  "(string \<Rightarrow> py_val \<Rightarrow> error + py_val) \<Rightarrow> (string \<Rightarrow> bool) \<Rightarrow> rc_store \<Rightarrow> database
     \<Rightarrow> rc_group list \<Rightarrow> database \<times> error option" where
  "load_groups co ident h db [] = (db, None)"
| "load_groups co ident h db (g # gs) =
     (case load_group co ident h db g of
        (db', Some e) \<Rightarrow> (db', Some e)
      | (db', None) \<Rightarrow> load_groups co ident h db' gs)"

text \<open>
  The adapter: the schema of the database is reflected, and every table found there
  gets a table handle.
\<close>

record adapter =
  ad_pkg :: pkg
  ad_tables :: "string \<rightharpoonup> table_handle"

definition reflect :: "pkg \<Rightarrow> database \<Rightarrow> string \<rightharpoonup> table_handle" where
  "reflect p db = (\<lambda>n. map_option
     (\<lambda>t. th_new (Some p) \<lparr>tbl_base = n, tbl_name = n, tbl_columns = db_columns t\<rparr> Inr)
     (db_tables db n))"

definition construct ::
  "(string \<Rightarrow> py_val \<Rightarrow> error + py_val) \<Rightarrow> (string \<Rightarrow> bool) \<Rightarrow> rc_store \<Rightarrow> rc_ref list list
     \<Rightarrow> database \<Rightarrow> bool \<Rightarrow> database \<times> (error + adapter)" where
  "construct co ident h pkgs db pb =
     (case group_rcs h (concat pkgs) [] of
        Inl e \<Rightarrow> (db, Inl e)
      | Inr (h', gs) \<Rightarrow>
          (case load_groups co ident h' db gs of
             (db', Some e) \<Rightarrow> (db', Inl e)
           | (db', None) \<Rightarrow>
               (db', Inr \<lparr>ad_pkg = \<lparr>progress_bar = pb\<rparr>,
                          ad_tables = reflect \<lparr>progress_bar = pb\<rparr> db'\<rparr>)))"

section \<open>Vocabulary of the properties\<close>

text \<open>
  The names a query handle and a table handle use for their own members. A table or a
  column of such a name hides the member.
\<close>

definition reserved :: "string list" where
  "reserved = [''_pkg'', ''_subj'', ''_query'', ''_path'', ''pivot'', ''link'', ''filter'',
               ''groupby'', ''entities'', ''count'']"

definition table_members :: "string list" where
  "table_members = [''_pkg'', ''_table'', ''_qs'', ''with_qs'', ''alias'', ''_as_query'',
                    ''link'', ''filter'', ''entities'', ''count'']"

definition plain_t :: "table_handle \<Rightarrow> bool" where
  "plain_t t \<longleftrightarrow>
     list_all (\<lambda>n. \<not> has_col t n) table_members \<and> tbl_name (th_table t) \<notin> set reserved
     \<and> th_pkg t \<noteq> None"

definition plain_q :: "query_handle \<Rightarrow> bool" where
  "plain_q q \<longleftrightarrow>
     list_all (\<lambda>n. \<not> hidden q n) reserved \<and> plain_t (qh_subj q) \<and> qh_pkg q \<noteq> None"

text \<open>
  A handle lives in a store when its path mapping is a dictionary of the store that
  still holds what the handle's constructor put there.
\<close>

definition lives :: "dict_heap \<Rightarrow> query_handle \<Rightarrow> bool" where
  "lives h q \<longleftrightarrow>
     (case qh_path q of None \<Rightarrow> False | Some a \<Rightarrow> a < used h \<and> cells h a = qh_attrs q)"

definition heap_ok :: "dict_heap \<Rightarrow> bool" where
  "heap_ok h \<longleftrightarrow> default_path < used h \<and> cells h default_path = Map.empty"

text \<open>
  What a constructor call makes of a handle \<open>q\<close>, a subject \<open>t\<close> and a closure when
  nothing is hidden: the path mapping of the new handle, \<open>q\<close>'s extended by the
  subject's entry, the new handle, and the store with the new dictionary added.
\<close>

definition next_attrs :: "query_handle \<Rightarrow> table_handle \<Rightarrow> closure \<Rightarrow> path_dict" where
  "next_attrs q t query =
     (qh_attrs q)(tbl_name (th_table t) \<mapsto>
        \<lparr>th_pkg = th_pkg t, th_table = th_table t, th_qs = (\<lambda>x. bindE (th_qs t x) query)\<rparr>)"

definition next_q :: "nat \<Rightarrow> query_handle \<Rightarrow> table_handle \<Rightarrow> closure \<Rightarrow> query_handle" where
  "next_q a q t query =
     \<lparr>qh_pkg = qh_pkg q, qh_subj = t, qh_query = query, qh_path = Some a,
      qh_attrs = next_attrs q t query\<rparr>"

definition grow :: "dict_heap \<Rightarrow> path_dict \<Rightarrow> dict_heap" where
  "grow h d = h\<lparr>cells := (cells h)(used h := d), used := Suc (used h)\<rparr>"




fun supported :: "op \<Rightarrow> bool" where
  "supported (OpLink t on jt) = ((jt = ''left'' \<or> jt = ''full'') \<and> plain_t t)"
| "supported (OpPivot t) = plain_t t"
| "supported x = True"

text \<open>A call whose predicate cannot be evaluated.\<close>

fun malformed :: "op \<Rightarrow> bool" where
  "malformed (OpFilter c) = isl (call0 c)"
| "malformed (OpLink t on jt) = isl (call0 on)"
| "malformed (OpGroupby cs) = isl (call_all cs)"
| "malformed (OpPivot t) = False"




section \<open>Concrete inputs\<close>

text \<open>A store holding one resource, a tab-separated file with no declared dialect.\<close>

definition rc_item :: resource where
  "rc_item = \<lparr>rc_name = ''item'',
              descriptor = [''path'' \<mapsto> JStr ''data/item.tsv'', ''format'' \<mapsto> JStr ''csv''],
              committed = [''path'' \<mapsto> JStr ''data/item.tsv'', ''format'' \<mapsto> JStr ''csv''],
              rc_read = (\<lambda>d. Inr [])\<rparr>"

definition rcs_one :: rc_store where
  "rcs_one = (\<lambda>_. rc_item)"

text \<open>
  A database of two tables. The second item has an empty name and no category, the
  third has the identifier 0 and a category that does not exist.
\<close>

definition tbl_item :: sa_table where
  "tbl_item = \<lparr>tbl_base = ''item'', tbl_name = ''item'',
               tbl_columns = [''id'', ''name'', ''category_id'']\<rparr>"

definition tbl_category :: sa_table where
  "tbl_category = \<lparr>tbl_base = ''category'', tbl_name = ''category'',
                   tbl_columns = [''id'', ''title'']\<rparr>"

definition db0 :: store where
  "db0 = [''item'' \<mapsto> \<lparr>db_columns = [''id'', ''name'', ''category_id''],
                       db_rows = [[PInt 1, PStr ''apple'', PInt 10],
                                  [PInt 2, PStr [], PNone],
                                  [PInt 0, PStr ''pear'', PInt 99]]\<rparr>,
          ''category'' \<mapsto> \<lparr>db_columns = [''id'', ''title''],
                           db_rows = [[PInt 10, PStr ''fruit'']]\<rparr>]"

definition pkg0 :: pkg where
  "pkg0 = \<lparr>progress_bar = False\<rparr>"

definition t_item :: table_handle where
  "t_item = th_new (Some pkg0) tbl_item Inr"

definition t_category :: table_handle where
  "t_category = th_new (Some pkg0) tbl_category Inr"

definition heap0 :: dict_heap where
  "heap0 = \<lparr>cells = (\<lambda>_. Map.empty), used = 1\<rparr>"

text \<open>The query handle of the item table and the store after its construction.\<close>

definition q_item :: query_handle where
  "q_item = snd (projr (as_query heap0 t_item))"

definition heap_item :: dict_heap where
  "heap_item = fst (projr (as_query heap0 t_item))"

definition q_category :: query_handle where
  "q_category = snd (projr (as_query heap0 t_category))"

definition heap_category :: dict_heap where
  "heap_category = fst (projr (as_query heap0 t_category))"

definition on_category :: pyarg where
  "on_category = Primitive (Eq (Column tbl_item ''category_id'') (Column tbl_category ''id''))"


definition ops_missing :: "op list" where
  "ops_missing = [OpFilter (Primitive (Eq (Column tbl_item ''nope'') (Literal (PInt 1))))]"






text \<open>
  Resources for the loader: a category resource with one row, an item resource with
  no rows, an item resource whose file cannot be decoded, and one whose read fails
  with per-row detail. The conversions and the identifier check are trivial here.
\<close>

definition schema_item :: json where
  "schema_item = JObj
     [(''fields'', JList [JObj [(''name'', JStr ''id''), (''type'', JStr ''integer'')],
                          JObj [(''name'', JStr ''name''), (''type'', JStr ''string'')]]),
      (''primaryKey'', JStr ''id'')]"

definition schema_category :: json where
  "schema_category = JObj
     [(''fields'', JList [JObj [(''name'', JStr ''id''), (''type'', JStr ''integer'')],
                          JObj [(''name'', JStr ''title''), (''type'', JStr ''string'')]]),
      (''primaryKey'', JStr ''id'')]"

definition rc_category :: resource where
  "rc_category = \<lparr>rc_name = ''category'',
     descriptor = [''path'' \<mapsto> JStr ''category.csv'', ''format'' \<mapsto> JStr ''csv'',
                   ''schema'' \<mapsto> schema_category],
     committed = [''path'' \<mapsto> JStr ''category.csv'', ''format'' \<mapsto> JStr ''csv'',
                  ''schema'' \<mapsto> schema_category],
     rc_read = (\<lambda>d. Inr [[(''id'', PInt 10), (''title'', PStr ''fruit'')]])\<rparr>"

definition rc_with_read :: "error + row list \<Rightarrow> resource" where
  "rc_with_read r = \<lparr>rc_name = ''item'',
     descriptor = [''path'' \<mapsto> JStr ''item.csv'', ''format'' \<mapsto> JStr ''csv'',
                   ''schema'' \<mapsto> schema_item],
     committed = [''path'' \<mapsto> JStr ''item.csv'', ''format'' \<mapsto> JStr ''csv'',
                  ''schema'' \<mapsto> schema_item],
     rc_read = (\<lambda>d. r)\<rparr>"

definition rcs_with_read :: "error + row list \<Rightarrow> rc_store" where
  "rcs_with_read r = (\<lambda>i. if i = 0 then rc_category else rc_with_read r)"

definition db_empty :: database where
  "db_empty = \<lparr>db_tables = Map.empty, db_indexes = []\<rparr>"

definition co0 :: "string \<Rightarrow> py_val \<Rightarrow> error + py_val" where
  "co0 ty v = Inr v"

definition ident0 :: "string \<Rightarrow> bool" where
  "ident0 s = True"

text \<open>
  The outcome of constructing the adapter from one bundle of the category resource and
  an item resource, on an empty database.
\<close>

definition constructed :: "error + row list \<Rightarrow> database \<times> (error + adapter)" where
  "constructed r = construct co0 ident0 (rcs_with_read r) [[0, 1]] db_empty False"

section \<open>Properties of the dialect patch\<close>

lemma path_is_tsv_str:
  "descriptor rc ''path'' = Some (JStr p) \<Longrightarrow> path_is_tsv rc = Inr (endswith p ''.tsv'')"
  by (simp add: path_is_tsv_def)

text \<open>
  Claim C8. For a resource whose descriptor has a string path, \<open>format_patch\<close> returns
  the reference it was given and leaves every other resource alone. If the path ends in
  \<open>.tsv\<close> and no dialect is declared, the descriptor gains the tab-separated dialect
  (tab delimiter, no double-quote escaping, newline terminator, leading-space skipping,
  header row) and nothing else changes in it; otherwise, if no format is declared, it
  gains the format \<open>None\<close>; in both cases the change is committed. Otherwise nothing
  changes at all.
\<close>

theorem format_patch_spec:
  assumes "descriptor (h r) ''path'' = Some (JStr p)"
  shows "\<exists>h'. format_patch h r = Inr (h', r) \<and> (\<forall>r'. r' \<noteq> r \<longrightarrow> h' r' = h r') \<and>
    (if endswith p ''.tsv'' \<and> descriptor (h r) ''dialect'' = None then
       descriptor (h' r) = (descriptor (h r))(''dialect'' \<mapsto> JObj
          [(''delimiter'', JStr [CHR 0x09]),
           (''doubleQuote'', JBool False),
           (''lineTerminator'', JStr [CHR 0x0A]),
           (''skipInitialSpace'', JBool True),
           (''header'', JBool True)])
       \<and> committed (h' r) = descriptor (h' r)
     else if descriptor (h r) ''format'' = None then
       descriptor (h' r) = (descriptor (h r))(''format'' \<mapsto> JNull)
       \<and> committed (h' r) = descriptor (h' r)
     else h' = h)"
  using path_is_tsv_str [OF assms]
  by (auto simp: format_patch_def commit_def tsv_dialect_def domIff)

theorem format_patch_spec_witness:
  "descriptor (rcs_one 0) ''path'' = Some (JStr ''data/item.tsv'') \<and>
   (\<exists>h'. format_patch rcs_one 0 = Inr (h', 0) \<and> (\<forall>r'. r' \<noteq> 0 \<longrightarrow> h' r' = rcs_one r') \<and>
      descriptor (h' 0) ''dialect'' = Some tsv_dialect \<and>
      descriptor (h' 0) ''format'' = Some (JStr ''csv'') \<and>
      committed (h' 0) = descriptor (h' 0))"
proof -
  have p: "descriptor (rcs_one 0) ''path'' = Some (JStr ''data/item.tsv'')"
    by (simp add: rcs_one_def rc_item_def)
  have d: "descriptor (rcs_one 0) ''dialect'' = None"
    by (simp add: rcs_one_def rc_item_def)
  have e: "endswith ''data/item.tsv'' ''.tsv''"
    by (simp add: endswith_def)
  from format_patch_spec [of rcs_one 0 "''data/item.tsv''"] p d e
  obtain h' where h': "format_patch rcs_one 0 = Inr (h', 0)"
      "\<forall>r'. r' \<noteq> 0 \<longrightarrow> h' r' = rcs_one r'"
      "descriptor (h' 0) = (descriptor (rcs_one 0))(''dialect'' \<mapsto> tsv_dialect)"
      "committed (h' 0) = descriptor (h' 0)"
    by (auto simp: tsv_dialect_def)
  have "descriptor (h' 0) ''format'' = Some (JStr ''csv'')"
    using h'(3) by (simp add: rcs_one_def rc_item_def)
  with p h' show ?thesis by auto
qed

section \<open>Constructing handles\<close>

lemma bindE_simps [simp]:
  "bindE (Inl e) f = Inl e"
  "bindE (Inr x) f = f x"
  by (simp_all add: bindE_def)

lemma plain_t_cols:
  assumes "plain_t t"
  shows "\<not> has_col t ''_pkg''" "\<not> has_col t ''_table''" "\<not> has_col t ''_qs''"
    "\<not> has_col t ''with_qs''" "\<not> has_col t ''_as_query''" "\<not> has_col t ''link''"
    "\<not> has_col t ''filter''" "\<not> has_col t ''entities''" "\<not> has_col t ''count''"
  using assms by (simp_all add: plain_t_def table_members_def)

lemma plain_t_name:
  assumes "plain_t t"
  shows "tbl_name (th_table t) \<notin> set reserved"
  using assms by (simp add: plain_t_def)

lemma plain_q_hidden:
  assumes "plain_q q"
  shows "\<not> hidden q ''_pkg''" "\<not> hidden q ''_subj''" "\<not> hidden q ''_query''"
    "\<not> hidden q ''_path''" "\<not> hidden q ''pivot''" "\<not> hidden q ''link''"
    "\<not> hidden q ''filter''" "\<not> hidden q ''groupby''" "\<not> hidden q ''entities''"
    "\<not> hidden q ''count''"
  using assms by (simp_all add: plain_q_def reserved_def)

lemma th_new_plain:
  assumes "plain_t t"
  shows "th_new p (th_table t) qs = \<lparr>th_pkg = p, th_table = th_table t, th_qs = qs\<rparr>"
  using plain_t_cols [OF assms] by (simp add: th_new_def has_col_def)

lemma with_qs_plain:
  assumes "plain_t t"
  shows "with_qs t qs =
    Inr \<lparr>th_pkg = th_pkg t, th_table = th_table t, th_qs = (\<lambda>x. bindE (th_qs t x) qs)\<rparr>"
  using plain_t_cols [OF assms] th_new_plain [OF assms] by (simp add: with_qs_def)

lemma th_call_plain:
  assumes "plain_t t"
  shows "th_call t = Some (th_table t)"
  using plain_t_cols(2) [OF assms] by (simp add: th_call_def)

text \<open>
  With nothing hidden, the constructor succeeds whatever the closure is: it allocates
  the new dictionary and returns the handle described by \<open>next_q\<close>.
\<close>

lemma q_init_plain:
  assumes pq: "plain_q q" and lv: "lives h q" and pt: "plain_t t"
  shows "q_init h (qh_pkg q) t query (qh_path q) =
    Inr (grow h (next_attrs q t query), next_q (used h) q t query)"
proof -
  obtain a where a: "qh_path q = Some a" "cells h a = qh_attrs q"
    using lv by (auto simp: lives_def split: option.splits)
  have n: "tbl_name (th_table t) \<notin> set reserved"
    using pt by (rule plain_t_name)
  have r: "list_all (\<lambda>n. qh_attrs q n = None) reserved"
    using pq by (simp add: plain_q_def hidden_def)
  show ?thesis
    using n r by (auto simp: q_init_def a th_call_plain [OF pt] with_qs_plain [OF pt]
        next_attrs_def next_q_def grow_def reserved_def Let_def)
qed

lemma next_q_plain:
  assumes "plain_q q" and "plain_t t"
  shows "plain_q (next_q a q t query)"
  using assms plain_t_name [OF assms(2)]
  by (auto simp: plain_q_def next_q_def next_attrs_def hidden_def reserved_def)

lemma next_q_lives: "lives (grow h (next_attrs q t query)) (next_q (used h) q t query)"
  by (simp add: lives_def grow_def next_q_def)

lemma grow_frame: "a < used h \<Longrightarrow> cells (grow h d) a = cells h a"
  by (simp add: grow_def)

subsection \<open>The concrete handles\<close>

lemmas concrete_defs =
  heap_item_def q_item_def heap_category_def q_category_def as_query_def q_init_def th_call_def
  has_col_def t_item_def t_category_def th_new_def tbl_item_def tbl_category_def with_qs_def
  default_path_def heap0_def Let_def on_category_def pkg0_def

lemma q_item_plain: "plain_q q_item"
  by (simp add: concrete_defs plain_q_def plain_t_def hidden_def reserved_def table_members_def)

lemma q_item_lives: "lives heap_item q_item"
  by (simp add: concrete_defs lives_def)





section \<open>Join kinds\<close>

text \<open>
  Claim C7. A call \<open>q.link(t, p, join_type='right')\<close> that reaches the method raises
  \<open>NotImplementedError\<close>: the result is the error alone, so no handle has been
  constructed, no dictionary allocated and nothing executed. (The call reaches the
  method unless a table named \<open>link\<close> is in the path mapping of \<open>q\<close>.)
\<close>

theorem link_right_raises:
  "\<not> hidden q ''link'' \<Longrightarrow> link h q t p ''right'' = Inl NotImplementedError"
  by (simp add: link_def)

theorem link_right_raises_witness:
  "\<not> hidden q_item ''link'' \<and>
   link heap_item q_item t_category on_category ''right'' = Inl NotImplementedError"
  using link_right_raises [of q_item heap_item t_category on_category]
    plain_q_hidden(6) [OF q_item_plain] by simp





section \<open>Construction and execution\<close>



text \<open>One call of a chain.\<close>

lemma bindE_isl1: "isl m \<Longrightarrow> isl (bindE m f)"
  by (cases m) simp_all

lemma bindE_isl2: "isl k \<Longrightarrow> isl (bindE m (\<lambda>r. bindE k (g r)))"
  by (cases m; cases k) simp_all

lemma derived_plain:
  assumes pq: "plain_q q" and lv: "lives h q" and pt: "plain_t t"
    and r: "r = Inr (grow h (next_attrs q t c), next_q (used h) q t c)"
    and f: "bad \<or> (\<forall>qs. isl (qh_query q qs)) \<Longrightarrow> \<forall>qs. isl (c qs)"
  shows "\<exists>h' q'. r = Inr (h', q') \<and> plain_q q' \<and> lives h' q' \<and>
           ((bad \<or> (\<forall>qs. isl (qh_query q qs))) \<longrightarrow> (\<forall>qs. isl (qh_query q' qs)))"
proof (intro exI conjI)
  show "r = Inr (grow h (next_attrs q t c), next_q (used h) q t c)"
    by (rule r)
  show "plain_q (next_q (used h) q t c)"
    by (rule next_q_plain [OF pq pt])
  show "lives (grow h (next_attrs q t c)) (next_q (used h) q t c)"
    by (rule next_q_lives)
  show "(bad \<or> (\<forall>qs. isl (qh_query q qs))) \<longrightarrow> (\<forall>qs. isl (qh_query (next_q (used h) q t c) qs))"
    using f by (simp add: next_q_def)
qed

lemma apply_op_plain:
  assumes pq: "plain_q q" and lv: "lives h q" and su: "supported x"
  shows "\<exists>h' q'. apply_op h q x = Inr (h', q') \<and> plain_q q' \<and> lives h' q' \<and>
           ((malformed x \<or> (\<forall>qs. isl (qh_query q qs))) \<longrightarrow> (\<forall>qs. isl (qh_query q' qs)))"
proof -
  have s: "plain_t (qh_subj q)"
    using pq by (simp add: plain_q_def)
  note hid = plain_q_hidden [OF pq]
  show ?thesis
  proof (cases x)
    case (OpFilter c)
    show ?thesis
      unfolding OpFilter
    proof (rule derived_plain [OF pq lv s])
      show "apply_op h q (OpFilter c) = Inr (grow h (next_attrs q (qh_subj q)
          (\<lambda>qs. bindE (qh_query q qs) (\<lambda>r. bindE (call0 c) (\<lambda>e. Inr (sa_filter r e))))),
        next_q (used h) q (qh_subj q)
          (\<lambda>qs. bindE (qh_query q qs) (\<lambda>r. bindE (call0 c) (\<lambda>e. Inr (sa_filter r e)))))"
        using hid(7) by (simp add: filter_q_def q_init_plain [OF pq lv s])
      show "\<forall>qs. isl (bindE (qh_query q qs) (\<lambda>r. bindE (call0 c) (\<lambda>e. Inr (sa_filter r e))))"
        if "malformed (OpFilter c) \<or> (\<forall>qs. isl (qh_query q qs))"
        using that by (auto intro: bindE_isl1 bindE_isl2)
    qed
  next
    case (OpLink t on jt)
    then have t: "plain_t t" and j: "jt = ''left'' \<or> jt = ''full''"
      using su by simp_all
    have tc: "th_call (qh_subj q) = Some (th_table (qh_subj q))"
      by (rule th_call_plain [OF s])
    from j show ?thesis
    proof
      assume l: "jt = ''left''"
      show ?thesis
        unfolding OpLink
      proof (rule derived_plain [OF pq lv t])
        show "apply_op h q (OpLink t on jt) = Inr (grow h (next_attrs q t
            (\<lambda>qs. bindE (qh_query q qs) (\<lambda>r. bindE (call0 on) (\<lambda>e.
               Inr (sa_join r (th_table (qh_subj q)) e))))),
          next_q (used h) q t
            (\<lambda>qs. bindE (qh_query q qs) (\<lambda>r. bindE (call0 on) (\<lambda>e.
               Inr (sa_join r (th_table (qh_subj q)) e)))))"
          using hid(6) l by (simp add: link_def q_init_plain [OF pq lv t] tc)
        show "\<forall>qs. isl (bindE (qh_query q qs) (\<lambda>r. bindE (call0 on) (\<lambda>e.
               Inr (sa_join r (th_table (qh_subj q)) e))))"
          if "malformed (OpLink t on jt) \<or> (\<forall>qs. isl (qh_query q qs))"
          using that by (auto intro: bindE_isl1 bindE_isl2)
      qed
    next
      assume l: "jt = ''full''"
      show ?thesis
        unfolding OpLink
      proof (rule derived_plain [OF pq lv t])
        show "apply_op h q (OpLink t on jt) = Inr (grow h (next_attrs q t
            (\<lambda>qs. bindE (qh_query q qs) (\<lambda>r. bindE (call0 on) (\<lambda>e.
               Inr (sa_outerjoin r (th_table (qh_subj q)) e))))),
          next_q (used h) q t
            (\<lambda>qs. bindE (qh_query q qs) (\<lambda>r. bindE (call0 on) (\<lambda>e.
               Inr (sa_outerjoin r (th_table (qh_subj q)) e)))))"
          using hid(6) l by (simp add: link_def q_init_plain [OF pq lv t] tc)
        show "\<forall>qs. isl (bindE (qh_query q qs) (\<lambda>r. bindE (call0 on) (\<lambda>e.
               Inr (sa_outerjoin r (th_table (qh_subj q)) e))))"
          if "malformed (OpLink t on jt) \<or> (\<forall>qs. isl (qh_query q qs))"
          using that by (auto intro: bindE_isl1 bindE_isl2)
      qed
    qed
  next
    case (OpGroupby cs)
    show ?thesis
      unfolding OpGroupby
    proof (rule derived_plain [OF pq lv s])
      show "apply_op h q (OpGroupby cs) = Inr (grow h (next_attrs q (qh_subj q)
          (\<lambda>qs. bindE (qh_query q qs) (\<lambda>r. bindE (call_all cs) (\<lambda>es. Inr (sa_group_by r es))))),
        next_q (used h) q (qh_subj q)
          (\<lambda>qs. bindE (qh_query q qs) (\<lambda>r. bindE (call_all cs) (\<lambda>es. Inr (sa_group_by r es)))))"
        using hid(8) by (simp add: groupby_def q_init_plain [OF pq lv s])
      show "\<forall>qs. isl (bindE (qh_query q qs) (\<lambda>r. bindE (call_all cs) (\<lambda>es. Inr (sa_group_by r es))))"
        if "malformed (OpGroupby cs) \<or> (\<forall>qs. isl (qh_query q qs))"
        using that by (auto intro: bindE_isl1 bindE_isl2)
    qed
  next
    case (OpPivot t)
    then have t: "plain_t t"
      using su by simp
    show ?thesis
      unfolding OpPivot
    proof (rule derived_plain [OF pq lv t])
      show "apply_op h q (OpPivot t) =
          Inr (grow h (next_attrs q t (qh_query q)), next_q (used h) q t (qh_query q))"
        using hid(5) by (simp add: pivot_def q_init_plain [OF pq lv t])
      show "\<forall>qs. isl (qh_query q qs)"
        if "malformed (OpPivot t) \<or> (\<forall>qs. isl (qh_query q qs))"
        using that by simp
    qed
  qed
qed







lemma missing_column_deferred:
  "bindE (chain_any heap0 (OfTable t_item) ops_missing) (\<lambda>(h', q'). count db0 q')
     = Inl OperationalError"
  by code_simp


section \<open>Path mappings\<close>

lemma q_init_frame:
  assumes "q_init h p t query path = Inr (h', q')"
  shows "(\<forall>a. a < used h \<longrightarrow> cells h' a = cells h a) \<and> used h' = Suc (used h) \<and>
         (\<forall>a. qh_path q' = Some a \<longrightarrow> a = used h)"
  using assms
  by (auto simp: q_init_def Let_def bindE_def split: option.splits sum.splits if_splits)

lemma apply_op_frame:
  assumes "apply_op h q x = Inr (h', q')"
  shows "(\<forall>a. a < used h \<longrightarrow> cells h' a = cells h a) \<and> used h' = Suc (used h) \<and>
         (\<forall>a. qh_path q' = Some a \<longrightarrow> a = used h)"
proof (cases x)
  case (OpFilter c)
  with assms show ?thesis
    by (auto simp: filter_q_def split: if_splits dest!: q_init_frame)
next
  case (OpLink t on jt)
  with assms show ?thesis
    by (auto simp: link_def split: if_splits dest!: q_init_frame)
next
  case (OpGroupby cs)
  with assms show ?thesis
    by (auto simp: groupby_def split: if_splits dest!: q_init_frame)
next
  case (OpPivot t)
  with assms show ?thesis
    by (auto simp: pivot_def split: if_splits dest!: q_init_frame)
qed

lemma frame_lives:
  assumes "\<forall>a. a < used h \<longrightarrow> cells h' a = cells h a" and "used h \<le> used h'" and "lives h q"
  shows "lives h' q"
  using assms by (auto simp: lives_def split: option.splits)

lemma frame_heap_ok:
  assumes "\<forall>a. a < used h \<longrightarrow> cells h' a = cells h a" and "used h \<le> used h'" and "heap_ok h"
  shows "heap_ok h'"
  using assms by (auto simp: heap_ok_def)


text \<open>
  Claim C10. Deriving a handle from \<open>q\<close> by \<open>filter\<close>, \<open>link\<close>, \<open>groupby\<close> or
  \<open>pivot\<close>, or making a handle from a table (the one constructor call that uses the
  default argument), changes no dictionary that existed before: the dictionary of the
  new handle is at a fresh address, the path mapping of \<open>q\<close> still is what \<open>q\<close>'s
  constructor stored, and the dictionary of the default argument is still empty.
\<close>

theorem construction_frame:
  assumes "apply_op h q x = Inr (h', q') \<or> as_query h t = Inr (h', q')"
  shows "(\<forall>a. a < used h \<longrightarrow> cells h' a = cells h a) \<and>
         (\<forall>a. qh_path q' = Some a \<longrightarrow> a = used h) \<and>
         (lives h q \<longrightarrow> lives h' q) \<and>
         (heap_ok h \<longrightarrow> heap_ok h')"
proof -
  have f: "(\<forall>a. a < used h \<longrightarrow> cells h' a = cells h a) \<and> used h' = Suc (used h) \<and>
         (\<forall>a. qh_path q' = Some a \<longrightarrow> a = used h)"
    using assms apply_op_frame [of h q x h' q'] q_init_frame [of h _ _ _ _ h' q']
    by (auto simp: as_query_def)
  then have "used h \<le> used h'"
    by simp
  with f show ?thesis
    using frame_lives [of h h' q] frame_heap_ok [of h h'] by blast
qed


lemma heap_item_ok: "heap_ok heap_item"
  by (simp add: concrete_defs heap_ok_def)

theorem construction_frame_witness:
  "\<exists>h' q'. apply_op heap_item q_item (OpFilter on_category) = Inr (h', q') \<and>
     (\<forall>a. a < used heap_item \<longrightarrow> cells h' a = cells heap_item a) \<and>
     (\<forall>a. qh_path q' = Some a \<longrightarrow> a = used heap_item) \<and>
     lives h' q_item \<and> heap_ok h'"
proof -
  from apply_op_plain [OF q_item_plain q_item_lives, of "OpFilter on_category"]
  obtain h' q' where r: "apply_op heap_item q_item (OpFilter on_category) = Inr (h', q')"
    by auto
  from construction_frame [of heap_item q_item "OpFilter on_category" h' q' t_item] r
    q_item_lives heap_item_ok
  show ?thesis
    by blast
qed

section \<open>Enumerating entities\<close>











section \<open>Composition of filters\<close>

lemma sql_truth_bool [simp]: "sql_truth (sql_bool t) = t"
  by (cases t) auto



















section \<open>The disjunction of equalities\<close>






















section \<open>Loading\<close>

subsection \<open>A resource without rows\<close>

lemma convert_fields_empty:
  "convert_fields co names fs [] = Inr rows \<Longrightarrow> rows = []"
  by (induction fs) (auto simp: bindE_def split: sum.splits if_splits)

lemma prepare_empty:
  assumes "prepare co schema [] = Inr (ixs, cols, rows)"
  shows "\<exists>names. field_names schema = Inr names \<and> ixs = [default_index_label names] \<and>
           cols = names \<and> rows = []"
  using assms
  by (auto simp: prepare_def bindE_def split: sum.splits dest: convert_fields_empty)

text \<open>
  A group without rows that loads: its table has no rows, the declared columns and,
  before them, one more column for the index of the empty frame; the only index on the
  table is the library's index on that column.
\<close>

lemma load_group_empty:
  assumes r: "read_all h rs = Inr []" and l: "load_group co ident h db (name, schema, rs) = (db', None)"
  shows "\<exists>names. field_names schema = Inr names \<and>
           db_tables db' name =
             Some \<lparr>db_columns = default_index_label names # names, db_rows = []\<rparr> \<and>
           filter (\<lambda>(i, t, cs). t = name) (db_indexes db') =
             [(join_with ''_'' [''ix'', name, default_index_label names], name,
               [default_index_label names])]"
proof -
  from l r obtain ixs cols rows where p: "prepare co schema [] = Inr (ixs, cols, rows)"
      and d: "db' = to_sql db name ixs cols rows"
    by (auto simp: load_group_def split: sum.splits)
  from prepare_empty [OF p] obtain names where n: "field_names schema = Inr names"
      "ixs = [default_index_label names]" "cols = names" "rows = []"
    by blast
  have "filter (\<lambda>(i, t, cs). t = name) (filter (\<lambda>(i, t, cs). t \<noteq> name) (db_indexes db)) = []"
    by (induction "db_indexes db") (auto simp: filter_empty_conv)
  then show ?thesis
    using n by (simp add: d to_sql_def)
qed

text \<open>
  Claim C6, evaluated. A bundle with an item resource that declares the fields \<open>id\<close>
  and \<open>name\<close> and has no rows is loaded into an empty database. The table exists, it
  has no rows and no index was made for the primary key; but its columns are \<open>index\<close>,
  \<open>id\<close>, \<open>name\<close>, one more than declared, and the library has indexed the extra
  column. The constructor passes \<open>index=True\<close> to \<open>to_sql\<close> also when there are no
  rows, where the frame's index is not the primary key but the frame's own row index.
\<close>

theorem empty_resource_extra_column:
  "field_names schema_item = Inr [''id'', ''name''] \<and>
   db_tables (fst (constructed (Inr []))) ''item'' =
     Some \<lparr>db_columns = [''index'', ''id'', ''name''], db_rows = []\<rparr> \<and>
   filter (\<lambda>(i, t, cs). t = ''item'') (db_indexes (fst (constructed (Inr [])))) =
     [(''ix_item_index'', ''item'', [''index''])]"
  by code_simp

subsection \<open>A read that fails\<close>

lemma handler_detail: "handler (ReadError d) = ReadError d"
  by (simp add: handler_def has_errors_def)

text \<open>
  A read that fails ends the loading: the database is as the groups before left it,
  and the exception is what the handler raises.
\<close>

lemma load_groups_read_failure:
  assumes "load_groups co ident h db gs = (db1, None)" and "read_all h rs = Inl e"
  shows "load_groups co ident h db (gs @ (name, schema, rs) # gs') = (db1, Some (handler e))"
  using assms
proof (induction gs arbitrary: db)
  case Nil
  then show ?case by (simp add: load_group_def)
next
  case (Cons g gs)
  then show ?case
    by (auto split: prod.splits option.splits)
qed

text \<open>
  When the exception of the read carries per-row detail, it is the exception the caller
  gets; the category table, loaded before, is there and no item table is.
\<close>

lemma read_error_with_detail:
  "isl (snd (constructed (Inl (ReadError [''row 2: bad integer''])))) \<and>
   projl (snd (constructed (Inl (ReadError [''row 2: bad integer''])))) =
     ReadError [''row 2: bad integer''] \<and>
   db_tables (fst (constructed (Inl (ReadError [''row 2: bad integer''])))) ''item'' = None \<and>
   db_tables (fst (constructed (Inl (ReadError [''row 2: bad integer''])))) ''category'' =
     Some \<lparr>db_columns = [''id'', ''title''], db_rows = [[PInt 10, PStr ''fruit'']]\<rparr>"
  by code_simp


text \<open>
  Claim C4, evaluated. The same bundle, with an item file that cannot be decoded: the
  read raises \<open>UnicodeDecodeError\<close>, which has no attribute \<open>errors\<close>. The loading
  stops, the category table stays and no item table is made, but the caller gets
  \<open>AttributeError\<close>, raised by the handler at \<open>print(e.errors)\<close>, and not the error of
  the read.
\<close>

theorem read_error_without_detail:
  "isl (snd (constructed (Inl UnicodeDecodeError))) \<and>
   projl (snd (constructed (Inl UnicodeDecodeError))) = AttributeError \<and>
   db_tables (fst (constructed (Inl UnicodeDecodeError))) ''item'' = None \<and>
   db_tables (fst (constructed (Inl UnicodeDecodeError))) ''category'' =
     Some \<lparr>db_columns = [''id'', ''title''], db_rows = [[PInt 10, PStr ''fruit'']]\<rparr>"
  by code_simp


end
